theory Spec2Isabelle
  imports
    Complex_Main
    "HOL-Library.Char_ord"
    "HOL-Library.List_Lexorder"
    "HOL-Library.Product_Lexorder"
begin

section \<open>Data model (backend/types.py)\<close>

text \<open>
  A Python \<open>str\<close> that is iterated character by character (the amino-acid sequence) is the
  list of its characters; the model is polymorphic in the character type \<open>'c\<close>, so
  \<open>length\<close> counts what Python's \<open>len\<close> counts. Model names and state labels are
  \<open>string\<close>s; the two Greek letters of the state labels are written as their UTF-8 bytes
  (the byte-wise lexicographic order of UTF-8 is the code-point order Python compares by).
  Python floats are idealised as reals.
\<close>

record 'c ResiduePrediction =
  position :: int
  residue :: 'c
  state :: string
  confidence :: real
  model :: string

record ModelSummary =
  name :: string
  accuracy :: real
  precision :: real
  recall :: real
  summary_notes :: string

record FeatureProfile =
  hydrophobicity :: "real list"
  polarity :: "real list"
  molecular_weight :: "real list"

record 'c PredictionResult =
  residues :: "'c ResiduePrediction list"
  distribution :: "(string \<times> real) list"
  model_summaries :: "ModelSummary list"
  feature_profile :: FeatureProfile

text \<open>The exceptions the backend can raise, as values.\<close>

datatype error = ValueError string | NotImplementedError | KeyError string

section \<open>Mutable state: the extractor and the two random generators\<close>

text \<open>
  \<open>FeatureExtractor.__init__\<close> stores the two fields below (defaults 7 and 0.5).
\<close>

record FeatureExtractor =
  window_size :: int
  smoothing :: real

definition FeatureExtractor_init :: FeatureExtractor where
  "FeatureExtractor_init = \<lparr>window_size = 7, smoothing = 0.5\<rparr>"

text \<open>
  A generator is the sequence of raw variates it is going to yield together with the number
  already drawn. Python's \<open>random\<close> module yields raw naturals, \<open>numpy.random\<close> yields
  standard normal variates. Which values come is not modelled: they are inputs.
\<close>

type_synonym 'a source = "(nat \<Rightarrow> 'a) \<times> nat"

definition draw :: "'a source \<Rightarrow> 'a \<times> 'a source" where
  "draw s = (fst s (snd s), (fst s, Suc (snd s)))"

text \<open>
  Everything a call of the pipeline can read or write: the extractor held by the
  \<open>PredictionPipeline\<close> instance (\<open>self.extractor\<close>) and the two module-level generators.
\<close>

record world =
  extractor :: FeatureExtractor
  py_random :: "nat source"
  np_random :: "real source"

definition PredictionPipeline_init :: "nat source \<Rightarrow> real source \<Rightarrow> world" where
  "PredictionPipeline_init py np =
     \<lparr>extractor = FeatureExtractor_init, py_random = py, np_random = np\<rparr>"

section \<open>Python built-ins used by the backend\<close>

text \<open>Rounding to the nearest integer, ties to the even neighbour (Python's and numpy's rule).\<close>

definition round_half_even :: "real \<Rightarrow> int" where
  "round_half_even x =
     (let f = \<lfloor>x\<rfloor>; d = x - of_int f
      in if d < 1/2 then f else if 1/2 < d then f + 1 else if even f then f else f + 1)"

text \<open>\<open>round(x, ndigits)\<close> and \<open>ndarray.round(ndigits)\<close> on one value.\<close>

definition py_round :: "real \<Rightarrow> nat \<Rightarrow> real" where
  "py_round x ndigits = of_int (round_half_even (x * 10 ^ ndigits)) / 10 ^ ndigits"

text \<open>\<open>random.choice(seq)\<close> for a non-empty \<open>seq\<close>: one raw draw selects the index.\<close>

definition random_choice :: "'a list \<Rightarrow> world \<Rightarrow> 'a \<times> world" where
  "random_choice xs w =
     (let (k, g) = draw (py_random w) in (xs ! (k mod length xs), w\<lparr>py_random := g\<rparr>))"

text \<open>\<open>random.uniform(a, b)\<close> is \<open>a + (b - a) * random()\<close>, with \<open>random()\<close> a 53-bit fraction.\<close>

definition random_uniform :: "real \<Rightarrow> real \<Rightarrow> world \<Rightarrow> real \<times> world" where
  "random_uniform a b w =
     (let (k, g) = draw (py_random w)
      in (a + (b - a) * (real (k mod 2 ^ 53) / 2 ^ 53), w\<lparr>py_random := g\<rparr>))"

text \<open>\<open>collections.Counter(iterable)\<close>: counts per key, keys in order of first occurrence.\<close>

fun counter_add :: "'k \<Rightarrow> ('k \<times> nat) list \<Rightarrow> ('k \<times> nat) list" where
  "counter_add k [] = [(k, 1)]"
| "counter_add k ((k', n) # c) = (if k' = k then (k', Suc n) # c else (k', n) # counter_add k c)"

definition Counter :: "'k list \<Rightarrow> ('k \<times> nat) list" where
  "Counter xs = foldl (\<lambda>c x. counter_add x c) [] xs"

section \<open>Predictors and the registry (backend/predictors.py)\<close>

definition STATES :: "string list" where
  "STATES = [CHR 0xCE # CHR 0xB1 # ''-Helix'', CHR 0xCE # CHR 0xB2 # ''-Sheet'', ''Coil'']"

datatype predictor =
  BasePredictor | RuleBasedPredictor | DecisionTreePredictor | NaiveBayesPredictor

fun predictor_name :: "predictor \<Rightarrow> string" where
  "predictor_name BasePredictor = ''BasePredictor''"
| "predictor_name RuleBasedPredictor = ''Rule-Based''"
| "predictor_name DecisionTreePredictor = ''Decision Tree''"
| "predictor_name NaiveBayesPredictor = ''Naive Bayes''"

text \<open>\<open>BasePredictor.summarize\<close>: the three metrics are drawn in field order.\<close>

definition summarize :: "predictor \<Rightarrow> world \<Rightarrow> ModelSummary \<times> world" where
  "summarize p w =
     (let (a, w1) = random_uniform 0.72 0.93 w;
          (pr, w2) = random_uniform 0.7 0.92 w1;
          (r, w3) = random_uniform 0.7 0.9 w2
      in (\<lparr>name = predictor_name p, accuracy = py_round a 2, precision = py_round pr 2,
           recall = py_round r 2, summary_notes = ''Placeholder metrics''\<rparr>, w3))"

text \<open>
  \<open>BasePredictor._generate_predictions\<close>: the loop over \<open>enumerate(sequence, start=1)\<close>;
  \<open>idx\<close> is the index of the first remaining character.
\<close>

fun generate_predictions_from ::
  "int \<Rightarrow> 'c list \<Rightarrow> string \<Rightarrow> world \<Rightarrow> 'c ResiduePrediction list \<times> world" where
  "generate_predictions_from idx [] model_name w = ([], w)"
| "generate_predictions_from idx (res # rest) model_name w =
     (let (st, w1) = random_choice STATES w;
          (u, w2) = random_uniform 0.45 0.98 w1;
          rec = \<lparr>position = idx, residue = res, state = st,
                 confidence = py_round u 2, model = model_name\<rparr>;
          (recs, w3) = generate_predictions_from (idx + 1) rest model_name w2
      in (rec # recs, w3))"

definition generate_predictions ::
  "'c list \<Rightarrow> string \<Rightarrow> world \<Rightarrow> 'c ResiduePrediction list \<times> world" where
  "generate_predictions sequence model_name w = generate_predictions_from 1 sequence model_name w"

text \<open>\<open>predict\<close>: abstract in the base class, \<open>_generate_predictions\<close> in the three subclasses.\<close>

fun predict ::
  "predictor \<Rightarrow> 'c list \<Rightarrow> world \<Rightarrow> (error + 'c ResiduePrediction list) \<times> world" where
  "predict BasePredictor sequence w = (Inl NotImplementedError, w)"
| "predict p sequence w =
     (let (recs, w') = generate_predictions sequence (predictor_name p) w in (Inr recs, w'))"

definition mapping :: "(string \<times> predictor) list" where
  "mapping = [(''Rule-Based'', RuleBasedPredictor),
              (''Decision Tree'', DecisionTreePredictor),
              (''Naive Bayes'', NaiveBayesPredictor)]"

fun build_predictors :: "string list \<Rightarrow> predictor list" where
  "build_predictors [] = []"
| "build_predictors (nm # selected) =
     (case map_of mapping nm of
        None \<Rightarrow> build_predictors selected
      | Some cls \<Rightarrow> cls # build_predictors selected)"

section \<open>Feature extraction (backend/feature_extractor.py)\<close>

text \<open>\<open>numpy.linspace(start, stop, num)\<close>: \<open>num\<close> evenly spaced values, both ends included.\<close>

definition linspace :: "real \<Rightarrow> real \<Rightarrow> nat \<Rightarrow> real list" where
  "linspace start stop num =
     (if num = 1 then [start]
      else map (\<lambda>i. start + real i * ((stop - start) / real (num - 1))) [0..<num])"

text \<open>\<open>numpy.random.normal(loc, scale, size)\<close>: \<open>size\<close> standard variates, scaled and shifted.\<close>

definition np_random_normal :: "real \<Rightarrow> real \<Rightarrow> nat \<Rightarrow> world \<Rightarrow> real list \<times> world" where
  "np_random_normal loc scale n w =
     (let (f, pos) = np_random w
      in (map (\<lambda>i. loc + scale * f (pos + i)) [0..<n], w\<lparr>np_random := (f, pos + n)\<rparr>))"

definition clip :: "real \<Rightarrow> real \<Rightarrow> real \<Rightarrow> real" where
  "clip v lo hi = min (max v lo) hi"

text \<open>The local function \<open>noisy_profile\<close> of \<open>compute_profiles\<close>; it reads \<open>self.smoothing\<close>.\<close>

definition noisy_profile :: "real list \<Rightarrow> nat \<Rightarrow> real \<Rightarrow> world \<Rightarrow> real list \<times> world" where
  "noisy_profile base len scale w =
     (let (noise, w') = np_random_normal 0 scale len w;
          s = smoothing (extractor w');
          smoothed = map2 (\<lambda>b n. (1 - s) * b + s * (b + n)) base noise
      in (map (\<lambda>v. py_round (clip v 0 1) 3) smoothed, w'))"

definition compute_profiles ::
  "'c list \<Rightarrow> world \<Rightarrow> (error + (string \<times> real list) list) \<times> world" where
  "compute_profiles sequence w =
     (if sequence = [] then (Inl (ValueError ''Sequence is empty.''), w)
      else
        let len = length sequence;
            base = linspace 0.2 0.8 len;
            (h, w1) = noisy_profile base len 0.15 w;
            (p, w2) = noisy_profile base len 0.12 w1;
            (m, w3) = noisy_profile base len 0.18 w2
        in (Inr [(''hydrophobicity'', h), (''polarity'', p), (''molecular_weight'', m)], w3))"

section \<open>The pipeline (backend/pipeline.py)\<close>

text \<open>
  The \<open>config\<close> argument is \<open>None\<close> or a dictionary; the values of its keys are numbers
  (the interface sends an integer spin-box value and a float slider value), so \<open>int\<close> and
  \<open>float\<close> cannot raise: \<open>int\<close> truncates towards zero and \<open>float\<close> is the identity.
\<close>

type_synonym config = "(string \<times> real) list"

definition py_int :: "real \<Rightarrow> int" where
  "py_int x = (if 0 \<le> x then \<lfloor>x\<rfloor> else \<lceil>x\<rceil>)"

text \<open>\<open>d[key]\<close> on a dictionary.\<close>

definition dict_get :: "(string \<times> 'v) list \<Rightarrow> string \<Rightarrow> error + 'v" where
  "dict_get d k = (case map_of d k of None \<Rightarrow> Inl (KeyError k) | Some v \<Rightarrow> Inr v)"

definition pipeline_build_predictors :: "string list \<Rightarrow> config option \<Rightarrow> error + predictor list" where
  "pipeline_build_predictors names config =
     (if names = [] then Inl (ValueError ''At least one model must be selected.'')
      else Inr (build_predictors names))"

fun merge_loop ::
  "predictor list \<Rightarrow> 'c list \<Rightarrow> 'c ResiduePrediction list \<Rightarrow> world
     \<Rightarrow> (error + 'c ResiduePrediction list) \<times> world" where
  "merge_loop [] sequence merged w = (Inr merged, w)"
| "merge_loop (p # ps) sequence merged w =
     (case predict p sequence w of
        (Inl e, w') \<Rightarrow> (Inl e, w')
      | (Inr recs, w') \<Rightarrow> merge_loop ps sequence (merged @ recs) w')"

definition merge_predictions ::
  "'c list \<Rightarrow> predictor list \<Rightarrow> world \<Rightarrow> (error + 'c ResiduePrediction list) \<times> world" where
  "merge_predictions sequence predictors w =
     (case merge_loop predictors sequence [] w of
        (Inl e, w') \<Rightarrow> (Inl e, w')
      | (Inr merged, w') \<Rightarrow> (Inr (sort_key (\<lambda>rec. (position rec, model rec)) merged), w'))"

text \<open>The divisor of \<open>_calc_distribution\<close>: \<open>sum(counter.values()) or 1\<close>.\<close>

definition calc_total :: "(string \<times> nat) list \<Rightarrow> nat" where
  "calc_total counter = (let s = sum_list (map snd counter) in if s = 0 then 1 else s)"

definition calc_distribution :: "'c ResiduePrediction list \<Rightarrow> (string \<times> real) list" where
  "calc_distribution predictions =
     (let counter = Counter (map state predictions);
          total = calc_total counter
      in map (\<lambda>(st, count). (st, py_round (real count / real total * 100) 1)) counter)"

fun summarize_all :: "predictor list \<Rightarrow> world \<Rightarrow> ModelSummary list \<times> world" where
  "summarize_all [] w = ([], w)"
| "summarize_all (p # ps) w =
     (let (s, w1) = summarize p w; (ss, w2) = summarize_all ps w1 in (s # ss, w2))"

text \<open>
  The \<open>if config:\<close> block of \<open>_build_feature_profile\<close>: the assignments to the fields of
  \<open>self.extractor\<close>. An empty dictionary is falsy, like \<open>None\<close>.
\<close>

definition apply_config :: "config option \<Rightarrow> world \<Rightarrow> world" where
  "apply_config config w =
     (case config of
        None \<Rightarrow> w
      | Some c \<Rightarrow>
          if c = [] then w
          else
            let w1 = (case map_of c ''window_size'' of
                        None \<Rightarrow> w
                      | Some v \<Rightarrow> w\<lparr>extractor := (extractor w)\<lparr>window_size := py_int v\<rparr>\<rparr>)
            in (case map_of c ''smoothing'' of
                  None \<Rightarrow> w1
                | Some v \<Rightarrow> w1\<lparr>extractor := (extractor w1)\<lparr>smoothing := v\<rparr>\<rparr>))"

definition build_feature_profile ::
  "'c list \<Rightarrow> config option \<Rightarrow> world \<Rightarrow> (error + (string \<times> real list) list) \<times> world" where
  "build_feature_profile sequence config w = compute_profiles sequence (apply_config config w)"

definition make_feature_profile :: "(string \<times> real list) list \<Rightarrow> error + FeatureProfile" where
  "make_feature_profile profiles =
     (case dict_get profiles ''hydrophobicity'' of
        Inl e \<Rightarrow> Inl e
      | Inr h \<Rightarrow>
          (case dict_get profiles ''polarity'' of
             Inl e \<Rightarrow> Inl e
           | Inr p \<Rightarrow>
               (case dict_get profiles ''molecular_weight'' of
                  Inl e \<Rightarrow> Inl e
                | Inr m \<Rightarrow> Inr \<lparr>hydrophobicity = h, polarity = p, molecular_weight = m\<rparr>)))"

text \<open>
  \<open>PredictionPipeline.run\<close>. A raised exception is the \<open>Inl\<close> result together with the
  world as it is at the moment of the raise.
\<close>

definition run ::
  "'c list \<Rightarrow> string list \<Rightarrow> config option \<Rightarrow> world \<Rightarrow> (error + 'c PredictionResult) \<times> world" where
  "run sequence model_names config w =
     (if sequence = [] then (Inl (ValueError ''Sequence is empty.''), w)
      else
        case pipeline_build_predictors model_names config of
          Inl e \<Rightarrow> (Inl e, w)
        | Inr predictors \<Rightarrow>
            (case merge_predictions sequence predictors w of
               (Inl e, w1) \<Rightarrow> (Inl e, w1)
             | (Inr all_predictions, w1) \<Rightarrow>
                 let dist = calc_distribution all_predictions;
                     (summaries, w2) = summarize_all predictors w1
                 in (case build_feature_profile sequence config w2 of
                       (Inl e, w3) \<Rightarrow> (Inl e, w3)
                     | (Inr profiles, w3) \<Rightarrow>
                         (case make_feature_profile profiles of
                            Inl e \<Rightarrow> (Inl e, w3)
                          | Inr fp \<Rightarrow>
                              (Inr \<lparr>residues = all_predictions, distribution = dist,
                                    model_summaries = summaries, feature_profile = fp\<rparr>, w3)))))"

text \<open>
  The two error names of the specification, as the exceptions the code raises for them.
\<close>

definition EmptyInputError :: error where
  "EmptyInputError = ValueError ''Sequence is empty.''"

definition NoModelSelectedError :: error where
  "NoModelSelectedError = ValueError ''At least one model must be selected.''"

section \<open>Auxiliary notions used in the statements\<close>

text \<open>
  What one predictor contributes for a sequence: one record per character, positions
  \<open>1, 2, \<dots>\<close> in order, the residue copied from the sequence, the model name its own.
\<close>

definition contributes :: "'c list \<Rightarrow> predictor \<Rightarrow> 'c ResiduePrediction list \<Rightarrow> bool" where
  "contributes sq p recs \<longleftrightarrow>
     map position recs = map int [1..<Suc (length sq)] \<and> map residue recs = sq \<and>
     list_all (\<lambda>r. model r = predictor_name p) recs"

text \<open>The sort key of \<open>_merge_predictions\<close>.\<close>

definition sort_key_of :: "'c ResiduePrediction \<Rightarrow> int \<times> string" where
  "sort_key_of r = (position r, model r)"

text \<open>Concrete generators and a freshly constructed pipeline, for the closed examples.\<close>

definition zero_draws :: "nat source" where
  "zero_draws = (\<lambda>_. 0, 0)"

definition unit_normals :: "real source" where
  "unit_normals = (\<lambda>_. 1, 0)"

definition world0 :: world where
  "world0 = PredictionPipeline_init zero_draws unit_normals"

section \<open>The registry\<close>

lemma map_of_mapping_cases:
  "map_of mapping nm = Some cls \<Longrightarrow> cls \<noteq> BasePredictor \<and> predictor_name cls = nm"
  by (auto simp: mapping_def split: if_splits)

lemma build_predictors_no_base: "BasePredictor \<notin> set (build_predictors names)"
  by (induction names) (auto split: option.splits dest: map_of_mapping_cases)

text \<open>
  C3 (as the code has it). Resolution keeps the caller's order and skips the names that
  are not registered, but it removes no duplicate: the resolved predictors are the
  registered classes of the requested names, one per occurrence, and their names are the
  requested names filtered by membership in the registry.
\<close>

theorem build_predictors_filters_in_order:
  "build_predictors names = List.map_filter (map_of mapping) names \<and>
   map predictor_name (build_predictors names) =
     filter (\<lambda>nm. nm \<in> {''Rule-Based'', ''Decision Tree'', ''Naive Bayes''}) names"
proof
  show "build_predictors names = List.map_filter (map_of mapping) names"
    by (induction names) (simp_all split: option.splits)
  show "map predictor_name (build_predictors names) =
     filter (\<lambda>nm. nm \<in> {''Rule-Based'', ''Decision Tree'', ''Naive Bayes''}) names"
    by (induction names)
      (auto split: option.splits dest: map_of_mapping_cases simp: mapping_def)
qed

text \<open>
  C3 as stated fails: a name requested twice is resolved twice, so the input names are
  not deduplicated.
\<close>

theorem build_predictors_keeps_duplicates:
  "build_predictors [''Rule-Based'', ''Rule-Based''] = [RuleBasedPredictor, RuleBasedPredictor] \<and>
   \<not> distinct (build_predictors [''Rule-Based'', ''Rule-Based''])"
  by (simp add: mapping_def)

section \<open>Predictors\<close>

lemma random_choice_frame [simp]:
  "extractor (snd (random_choice xs w)) = extractor w"
  "np_random (snd (random_choice xs w)) = np_random w"
  by (simp_all add: random_choice_def split_def Let_def)

lemma random_uniform_frame [simp]:
  "extractor (snd (random_uniform a b w)) = extractor w"
  "np_random (snd (random_uniform a b w)) = np_random w"
  by (simp_all add: random_uniform_def split_def Let_def)

lemma gen_from_frame [simp]:
  "extractor (snd (generate_predictions_from idx sq nm w)) = extractor w"
  "np_random (snd (generate_predictions_from idx sq nm w)) = np_random w"
  by (induction sq arbitrary: idx w) (simp_all add: split_def Let_def)

lemma gen_from_position:
  "map position (fst (generate_predictions_from idx sq nm w)) =
     map (\<lambda>i. idx + int i) [0..<length sq]"
proof (induction sq arbitrary: idx w)
  case Nil
  then show ?case by simp
next
  case (Cons c cs)
  have "map (\<lambda>i. idx + int i) [0..<length (c # cs)] =
          idx # map (\<lambda>i. (idx + 1) + int i) [0..<length cs]"
    by (simp add: upt_conv_Cons map_Suc_upt[symmetric] del: upt_Suc)
  then show ?case using Cons.IH by (simp add: split_def Let_def)
qed

lemma gen_from_residue:
  "map residue (fst (generate_predictions_from idx sq nm w)) = sq"
  by (induction sq arbitrary: idx w) (simp_all add: split_def Let_def)

lemma gen_from_model:
  "list_all (\<lambda>r. model r = nm) (fst (generate_predictions_from idx sq nm w))"
  by (induction sq arbitrary: idx w) (simp_all add: split_def Let_def)

lemma predict_contributes:
  assumes "p \<noteq> BasePredictor"
  shows "\<exists>recs w'. predict p sq w = (Inr recs, w') \<and> contributes sq p recs \<and>
           extractor w' = extractor w \<and> np_random w' = np_random w"
proof -
  have pos: "map (\<lambda>i. 1 + int i) [0..<length sq] = map int [1..<Suc (length sq)]"
    by (simp add: map_Suc_upt[symmetric] del: upt_Suc)
  have "predict p sq w = (Inr (fst (generate_predictions sq (predictor_name p) w)),
                          snd (generate_predictions sq (predictor_name p) w))"
    using assms by (cases p) (simp_all add: split_def Let_def)
  then show ?thesis
    by (simp add: contributes_def generate_predictions_def gen_from_position gen_from_residue
        gen_from_model pos)
qed



section \<open>The pipeline\<close>

text \<open>
  C7. For every list of model names, every configuration and every state of the
  pipeline, a run on the empty sequence raises the empty-input error at once: the world
  is returned as it was, so no predictor was resolved or invoked, no random number was
  drawn and the extractor was not touched.
\<close>

theorem run_empty_sequence:
  "run [] model_names config w = (Inl EmptyInputError, w)"
  by (simp add: run_def EmptyInputError_def)

lemma sort_key_of_eq: "(\<lambda>rec. (position rec, model rec)) = sort_key_of"
  by (simp add: fun_eq_iff sort_key_of_def)

lemma merge_loop_contributes:
  assumes "BasePredictor \<notin> set ps"
  shows "\<exists>recss w'. merge_loop ps sq merged w = (Inr (merged @ concat recss), w') \<and>
           list_all2 (contributes sq) ps recss \<and>
           extractor w' = extractor w \<and> np_random w' = np_random w"
  using assms
proof (induction ps arbitrary: merged w)
  case Nil
  then show ?case by simp
next
  case (Cons p ps)
  from Cons.prems have p: "p \<noteq> BasePredictor" and ps: "BasePredictor \<notin> set ps" by auto
  from predict_contributes[OF p] obtain recs w1 where
    r: "predict p sq w = (Inr recs, w1)" "contributes sq p recs"
       "extractor w1 = extractor w" "np_random w1 = np_random w" by blast
  from Cons.IH[OF ps, of "merged @ recs" w1] obtain recss w2 where
    m: "merge_loop ps sq (merged @ recs) w1 = (Inr ((merged @ recs) @ concat recss), w2)"
       "list_all2 (contributes sq) ps recss"
       "extractor w2 = extractor w1" "np_random w2 = np_random w1" by blast
  show ?case
    apply (rule exI[of _ "recs # recss"])
    apply (rule exI[of _ w2])
    using r m by simp
qed

lemma merge_predictions_contributes:
  assumes "BasePredictor \<notin> set ps"
  shows "\<exists>recss w'. merge_predictions sq ps w = (Inr (sort_key sort_key_of (concat recss)), w') \<and>
           list_all2 (contributes sq) ps recss \<and>
           extractor w' = extractor w \<and> np_random w' = np_random w"
proof -
  from merge_loop_contributes[OF assms, of sq "[]" w] obtain recss w' where
    "merge_loop ps sq [] w = (Inr (concat recss), w')" "list_all2 (contributes sq) ps recss"
    "extractor w' = extractor w" "np_random w' = np_random w" by auto
  then show ?thesis by (auto simp: merge_predictions_def sort_key_of_eq)
qed

lemma summarize_frame [simp]:
  "extractor (snd (summarize p w)) = extractor w"
  "np_random (snd (summarize p w)) = np_random w"
  by (simp_all add: summarize_def split_def Let_def)

lemma summarize_all_frame [simp]:
  "extractor (snd (summarize_all ps w)) = extractor w"
  "np_random (snd (summarize_all ps w)) = np_random w"
  by (induction ps arbitrary: w) (simp_all add: split_def Let_def)

lemma apply_config_frame:
  "np_random (apply_config cfg w) = np_random w"
  "py_random (apply_config cfg w) = py_random w"
  by (simp_all add: apply_config_def Let_def split: option.splits)

lemma apply_config_cong:
  "extractor w = extractor w' \<Longrightarrow> extractor (apply_config cfg w) = extractor (apply_config cfg w')"
  by (simp add: apply_config_def Let_def split: option.splits)

lemma compute_profiles_cong:
  "extractor w = extractor w' \<Longrightarrow> np_random w = np_random w' \<Longrightarrow>
   fst (compute_profiles sq w) = fst (compute_profiles sq w')"
  by (simp add: compute_profiles_def noisy_profile_def np_random_normal_def split_def Let_def)

lemma compute_profiles_extractor:
  "extractor (snd (compute_profiles sq w)) = extractor w"
  by (simp add: compute_profiles_def noisy_profile_def np_random_normal_def split_def Let_def)

lemma compute_profiles_Inr:
  assumes "sq \<noteq> []"
  shows "\<exists>h p m. fst (compute_profiles sq w) =
            Inr [(''hydrophobicity'', h), (''polarity'', p), (''molecular_weight'', m)]"
  using assms by (simp add: compute_profiles_def split_def Let_def)

lemma make_feature_profile_triple:
  "make_feature_profile [(''hydrophobicity'', h), (''polarity'', p), (''molecular_weight'', m)] =
     Inr \<lparr>hydrophobicity = h, polarity = p, molecular_weight = m\<rparr>"
  by (simp add: make_feature_profile_def dict_get_def)

lemma run_success:
  assumes "sq \<noteq> []" "names \<noteq> []"
  shows "\<exists>recss w1 h p m w'.
     run sq names cfg w =
       (Inr \<lparr>residues = sort_key sort_key_of (concat recss),
             distribution = calc_distribution (sort_key sort_key_of (concat recss)),
             model_summaries = fst (summarize_all (build_predictors names) w1),
             feature_profile = \<lparr>hydrophobicity = h, polarity = p, molecular_weight = m\<rparr>\<rparr>, w') \<and>
     list_all2 (contributes sq) (build_predictors names) recss \<and>
     fst (compute_profiles sq (apply_config cfg w)) =
       Inr [(''hydrophobicity'', h), (''polarity'', p), (''molecular_weight'', m)] \<and>
     extractor w' = extractor (apply_config cfg w)"
proof -
  let ?ps = "build_predictors names"
  from merge_predictions_contributes[OF build_predictors_no_base, of sq names w]
  obtain recss w1 where
    mp: "merge_predictions sq ?ps w = (Inr (sort_key sort_key_of (concat recss)), w1)"
    and c: "list_all2 (contributes sq) ?ps recss"
    and f1: "extractor w1 = extractor w" "np_random w1 = np_random w" by blast
  let ?w2 = "snd (summarize_all ?ps w1)"
  have f2: "extractor ?w2 = extractor w" "np_random ?w2 = np_random w"
    using f1 by simp_all
  have e: "extractor (apply_config cfg ?w2) = extractor (apply_config cfg w)"
    using f2(1) by (rule apply_config_cong)
  have cp: "fst (compute_profiles sq (apply_config cfg ?w2)) =
            fst (compute_profiles sq (apply_config cfg w))"
    using e f2 by (intro compute_profiles_cong) (simp_all add: apply_config_frame)
  from compute_profiles_Inr[OF assms(1), of "apply_config cfg w"] obtain h p m where
    hpm: "fst (compute_profiles sq (apply_config cfg w)) =
            Inr [(''hydrophobicity'', h), (''polarity'', p), (''molecular_weight'', m)]" by blast
  let ?w3 = "snd (compute_profiles sq (apply_config cfg ?w2))"
  have cp2: "fst (compute_profiles sq (apply_config cfg ?w2)) =
              Inr [(''hydrophobicity'', h), (''polarity'', p), (''molecular_weight'', m)]"
    using cp hpm by simp
  have "run sq names cfg w =
       (Inr \<lparr>residues = sort_key sort_key_of (concat recss),
             distribution = calc_distribution (sort_key sort_key_of (concat recss)),
             model_summaries = fst (summarize_all ?ps w1),
             feature_profile = \<lparr>hydrophobicity = h, polarity = p, molecular_weight = m\<rparr>\<rparr>, ?w3)"
    using assms mp
    by (simp add: cp2 run_def pipeline_build_predictors_def build_feature_profile_def split_def
        Let_def make_feature_profile_triple)
  moreover have "extractor ?w3 = extractor (apply_config cfg w)"
    using e by (simp add: compute_profiles_extractor)
  ultimately show ?thesis using c hpm by blast
qed

lemma contributes_length: "contributes sq p recs \<Longrightarrow> length recs = length sq"
  unfolding contributes_def by (metis length_map)

lemma contributes_concat_length:
  "list_all2 (contributes sq) ps recss \<Longrightarrow> length (concat recss) = length sq * length ps"
  by (induction rule: list_all2_induct) (simp_all add: contributes_length)

text \<open>
  C6. For every non-empty sequence and every list of names that resolves to at least one
  predictor, the run succeeds; each resolved predictor contributes one list of records,
  with exactly one record per character of the sequence, positions 1, 2, ... in order and
  the residue copied from the sequence at that position; the residues of the result are
  these contributions, concatenated and sorted; hence their number is the length of the
  sequence times the number of resolved predictors.
\<close>

theorem run_one_record_per_character:
  assumes "sequence \<noteq> []" and "build_predictors model_names \<noteq> []"
  shows "\<exists>recss res w'.
     run sequence model_names config w = (Inr res, w') \<and>
     list_all2 (contributes sequence) (build_predictors model_names) recss \<and>
     residues res = sort_key sort_key_of (concat recss) \<and>
     length (residues res) = length sequence * length (build_predictors model_names)"
proof -
  from assms(2) have "model_names \<noteq> []" by auto
  from run_success[OF assms(1) this, of config w] obtain recss res w' where
    r: "run sequence model_names config w = (Inr res, w')"
       "residues res = sort_key sort_key_of (concat recss)"
       "list_all2 (contributes sequence) (build_predictors model_names) recss"
    by force
  have "length (residues res) = length sequence * length (build_predictors model_names)"
    using r(2,3) by (simp add: contributes_concat_length)
  with r show ?thesis by blast
qed

lemma run_Inr_residues:
  assumes "run sq names cfg w = (Inr res, w')"
  shows "\<exists>merged. residues res = sort_key sort_key_of merged"
  using assms
  by (auto simp: run_def merge_predictions_def sort_key_of_eq split_def Let_def
      split: if_splits sum.splits)

text \<open>
  C5. In every result returned by a run the residues are sorted by the composite key
  (position, then model name in lexicographic order): the list of keys is sorted, and no
  adjacent pair of records violates the order.
\<close>

theorem run_residues_sorted:
  assumes "run sequence model_names config w = (Inr res, w')"
  shows "sorted (map sort_key_of (residues res)) \<and>
         (\<forall>i. Suc i < length (residues res) \<longrightarrow>
            position (residues res ! i) < position (residues res ! Suc i) \<or>
            position (residues res ! i) = position (residues res ! Suc i) \<and>
            model (residues res ! i) \<le> model (residues res ! Suc i))"
proof -
  from run_Inr_residues[OF assms] obtain merged where
    m: "residues res = sort_key sort_key_of merged" by blast
  then have s: "sorted (map sort_key_of (residues res))" by simp
  have "position (residues res ! i) < position (residues res ! Suc i) \<or>
        position (residues res ! i) = position (residues res ! Suc i) \<and>
        model (residues res ! i) \<le> model (residues res ! Suc i)"
    if "Suc i < length (residues res)" for i
  proof -
    from s that have "map sort_key_of (residues res) ! i \<le> map sort_key_of (residues res) ! Suc i"
      by (intro sorted_nth_mono) simp_all
    with that have "sort_key_of (residues res ! i) \<le> sort_key_of (residues res ! Suc i)"
      by simp
    then show ?thesis
      by (auto simp: sort_key_of_def less_eq_prod_def)
  qed
  with s show ?thesis by blast
qed

lemma run_projr:
  assumes "sq \<noteq> []" "names \<noteq> []"
  shows "run sq names cfg w = (Inr (projr (fst (run sq names cfg w))), snd (run sq names cfg w))"
proof -
  from run_success[OF assms, of cfg w] obtain res w' where "run sq names cfg w = (Inr res, w')"
    by blast
  then show ?thesis by simp
qed

text \<open>The definitions to unfold when a run is evaluated on a concrete input.\<close>

lemmas run_eval_simps =
  run_def pipeline_build_predictors_def mapping_def merge_predictions_def
  generate_predictions_def world0_def PredictionPipeline_init_def zero_draws_def
  random_choice_def random_uniform_def draw_def STATES_def split_def Let_def
  build_feature_profile_def compute_profiles_def make_feature_profile_def dict_get_def

theorem run_residues_sorted_witness:
  "run ''AC'' [''Rule-Based'', ''Decision Tree''] None world0 =
     (Inr (projr (fst (run ''AC'' [''Rule-Based'', ''Decision Tree''] None world0))),
      snd (run ''AC'' [''Rule-Based'', ''Decision Tree''] None world0)) \<and>
   map sort_key_of
     (residues (projr (fst (run ''AC'' [''Rule-Based'', ''Decision Tree''] None world0)))) =
     [(1, ''Decision Tree''), (1, ''Rule-Based''), (2, ''Decision Tree''), (2, ''Rule-Based'')] \<and>
   sorted (map sort_key_of
     (residues (projr (fst (run ''AC'' [''Rule-Based'', ''Decision Tree''] None world0)))))"
proof -
  let ?R = "run ''AC'' [''Rule-Based'', ''Decision Tree''] None world0"
  have h: "?R = (Inr (projr (fst ?R)), snd ?R)"
    by (rule run_projr) simp_all
  have k: "map sort_key_of (residues (projr (fst ?R))) =
     [(1, ''Decision Tree''), (1, ''Rule-Based''), (2, ''Decision Tree''), (2, ''Rule-Based'')]"
    by (simp add: run_eval_simps sort_key_of_def)
  from run_residues_sorted[OF h] h k show ?thesis by blast
qed

theorem run_one_record_per_character_witness:
  "''ACD'' \<noteq> [] \<and> build_predictors [''Rule-Based'', ''Decision Tree''] \<noteq> [] \<and>
   (\<exists>recss res w'.
      run ''ACD'' [''Rule-Based'', ''Decision Tree''] None world0 = (Inr res, w') \<and>
      list_all2 (contributes ''ACD'') (build_predictors [''Rule-Based'', ''Decision Tree'']) recss \<and>
      residues res = sort_key sort_key_of (concat recss) \<and>
      length (residues res) = 6) \<and>
   map (\<lambda>r. (position r, residue r, model r))
     (residues (projr (fst (run ''ACD'' [''Rule-Based''] None world0)))) =
     [(1, CHR ''A'', ''Rule-Based''), (2, CHR ''C'', ''Rule-Based''), (3, CHR ''D'', ''Rule-Based'')]"
proof -
  have h1: "''ACD'' \<noteq> []" by simp
  have h2: "build_predictors [''Rule-Based'', ''Decision Tree''] \<noteq> []"
    by (simp add: mapping_def)
  have l: "length ''ACD'' * length (build_predictors [''Rule-Based'', ''Decision Tree'']) = 6"
    by (simp add: mapping_def)
  have k: "map (\<lambda>r. (position r, residue r, model r))
     (residues (projr (fst (run ''ACD'' [''Rule-Based''] None world0)))) =
     [(1, CHR ''A'', ''Rule-Based''), (2, CHR ''C'', ''Rule-Based''), (3, CHR ''D'', ''Rule-Based'')]"
    by (simp add: run_eval_simps)
  from run_one_record_per_character[OF h1 h2, of None world0] l h1 h2 k show ?thesis
    by simp
qed

text \<open>
  C1 (as the code has it). The pipeline tests the list of requested names, not the list
  of resolved predictors: on a non-empty sequence a run raises the no-model-selected error
  exactly when the list of names is empty (and then leaves the world untouched). When the
  list is non-empty but resolves to no predictor, the run raises nothing and returns a
  result with no residues, an empty distribution and no model summaries.
\<close>

theorem run_no_model_selected:
  assumes "sequence \<noteq> []"
  shows "(fst (run sequence model_names config w) = Inl NoModelSelectedError \<longleftrightarrow> model_names = []) \<and>
         (model_names = [] \<longrightarrow> snd (run sequence model_names config w) = w) \<and>
         (model_names \<noteq> [] \<longrightarrow> build_predictors model_names = [] \<longrightarrow>
            (\<exists>res w'. run sequence model_names config w = (Inr res, w') \<and>
               residues res = [] \<and> distribution res = [] \<and> model_summaries res = []))"
proof (cases "model_names = []")
  case True
  then show ?thesis using assms
    by (simp add: run_def pipeline_build_predictors_def NoModelSelectedError_def)
next
  case False
  from run_success[OF assms False, of config w] obtain recss w1 h p m w' where
    r: "run sequence model_names config w =
       (Inr \<lparr>residues = sort_key sort_key_of (concat recss),
             distribution = calc_distribution (sort_key sort_key_of (concat recss)),
             model_summaries = fst (summarize_all (build_predictors model_names) w1),
             feature_profile = \<lparr>hydrophobicity = h, polarity = p, molecular_weight = m\<rparr>\<rparr>, w')"
    and c: "list_all2 (contributes sequence) (build_predictors model_names) recss"
    by blast
  have "recss = []" if "build_predictors model_names = []"
    using c that by simp
  then show ?thesis using False r
    by (simp add: calc_distribution_def Counter_def)
qed

theorem run_no_model_selected_witness:
  "''ACD'' \<noteq> [] \<and>
   (fst (run ''ACD'' [] None world0) = Inl NoModelSelectedError) \<and>
   [''Unknown-Model''] \<noteq> [] \<and> build_predictors [''Unknown-Model''] = [] \<and>
   (\<exists>res w'. run ''ACD'' [''Unknown-Model''] None world0 = (Inr res, w') \<and>
               residues res = [] \<and> distribution res = [] \<and> model_summaries res = [])"
proof -
  have h: "''ACD'' \<noteq> []" by simp
  have b: "build_predictors [''Unknown-Model''] = []" by (simp add: mapping_def)
  from run_no_model_selected[OF h, of "[]" None world0]
       run_no_model_selected[OF h, of "[''Unknown-Model'']" None world0] h b
  show ?thesis by simp
qed

text \<open>
  C1 as stated fails: for the sequence ACD and the single unknown name, a non-empty list
  that resolves to no predictor, the run does not raise the no-model-selected error; it
  returns a result, whose residue list is empty.
\<close>

theorem run_unknown_model_no_error:
  "''ACD'' \<noteq> [] \<and> [''Unknown-Model''] \<noteq> [] \<and> build_predictors [''Unknown-Model''] = [] \<and>
   fst (run ''ACD'' [''Unknown-Model''] None world0) \<noteq> Inl NoModelSelectedError \<and>
   \<not> isl (fst (run ''ACD'' [''Unknown-Model''] None world0)) \<and>
   residues (projr (fst (run ''ACD'' [''Unknown-Model''] None world0))) = []"
  by (simp add: run_eval_simps calc_distribution_def Counter_def NoModelSelectedError_def
      summarize_def)

section \<open>The distribution\<close>
















text \<open>A list of three records with two states: two thirds and one third, to one decimal.\<close>

lemma calc_distribution_example:
  "calc_distribution
     [\<lparr>position = 1, residue = CHR ''A'', state = ''Coil'', confidence = 0.5, model = ''Rule-Based''\<rparr>,
      \<lparr>position = 2, residue = CHR ''C'', state = ''Helix'', confidence = 0.5, model = ''Rule-Based''\<rparr>,
      \<lparr>position = 3, residue = CHR ''D'', state = ''Coil'', confidence = 0.5, model = ''Rule-Based''\<rparr>] =
   [(''Coil'', 667 / 10), (''Helix'', 333 / 10)]"
  by (simp add: calc_distribution_def Counter_def calc_total_def py_round_def round_half_even_def Let_def)

section \<open>The feature profile\<close>

lemma compute_profiles_smoothing_cong:
  "smoothing (extractor w) = smoothing (extractor w') \<Longrightarrow> np_random w = np_random w' \<Longrightarrow>
   fst (compute_profiles sq w) = fst (compute_profiles sq w')"
  by (simp add: compute_profiles_def noisy_profile_def np_random_normal_def split_def Let_def)









lemma run_profile_cong:
  assumes "\<And>w'. fst (compute_profiles sq (apply_config c1 w')) =
                 fst (compute_profiles sq (apply_config c2 w'))"
  shows "fst (run sq names c1 w) = fst (run sq names c2 w)"
  by (simp add: run_def pipeline_build_predictors_def build_feature_profile_def split_def
      Let_def assms split: sum.splits)

lemma apply_config_smoothing:
  "smoothing (extractor (apply_config config w)) =
     (case config of
        None \<Rightarrow> smoothing (extractor w)
      | Some c \<Rightarrow> (case map_of c ''smoothing'' of
                    None \<Rightarrow> smoothing (extractor w)
                  | Some v \<Rightarrow> v))"
  by (simp add: apply_config_def Let_def split: option.splits)


text \<open>
  C10. The computed profiles do not depend on the window size: for every sequence, every
  smoothing value and any two window sizes, \<open>compute_profiles\<close> returns the same
  profiles from the same random draws, and two runs whose configurations differ only in
  the window size return the same result.
\<close>

theorem profiles_independent_of_window_size:
  "fst (compute_profiles sequence (w\<lparr>extractor := \<lparr>window_size = a, smoothing = s\<rparr>\<rparr>)) =
   fst (compute_profiles sequence (w\<lparr>extractor := \<lparr>window_size = b, smoothing = s\<rparr>\<rparr>)) \<and>
   fst (run sequence model_names (Some ((''window_size'', x) # c)) w) =
   fst (run sequence model_names (Some ((''window_size'', y) # c)) w)"
proof
  show "fst (compute_profiles sequence (w\<lparr>extractor := \<lparr>window_size = a, smoothing = s\<rparr>\<rparr>)) =
        fst (compute_profiles sequence (w\<lparr>extractor := \<lparr>window_size = b, smoothing = s\<rparr>\<rparr>))"
    by (rule compute_profiles_smoothing_cong) simp_all
  show "fst (run sequence model_names (Some ((''window_size'', x) # c)) w) =
        fst (run sequence model_names (Some ((''window_size'', y) # c)) w)"
  proof (rule run_profile_cong)
    fix w'
    show "fst (compute_profiles sequence (apply_config (Some ((''window_size'', x) # c)) w')) =
          fst (compute_profiles sequence (apply_config (Some ((''window_size'', y) # c)) w'))"
      by (rule compute_profiles_smoothing_cong)
        (simp_all add: apply_config_smoothing apply_config_frame)
  qed
qed





end
